theory Spec2Isabelle
  imports Complex_Main "HOL-Library.Multiset" "HOL-Library.Char_ord" "HOL-Library.List_Lexorder"
begin

section \<open>Types of the dashboard (frontend/src/types/threat.ts)\<close>

text \<open>
  The string-literal unions \<^verbatim>\<open>ThreatLevel\<close> and \<^verbatim>\<open>IOCType\<close> become datatypes; the
  constructor \<open>L_high\<close> stands for the literal \<^verbatim>\<open>'high'\<close>, \<open>T_ip\<close> for \<^verbatim>\<open>'ip'\<close>.
\<close>

datatype ThreatLevel = L_critical | L_high | L_medium | L_low | L_info

datatype IOCType = T_ip | T_domain | T_hash | T_url | T_email

text \<open>
  A JavaScript \<^verbatim>\<open>Date\<close> holds a time value in milliseconds, or NaN (an invalid
  date): \<open>getTime\<close> is \<open>None\<close> for NaN.
\<close>

datatype Date = Date (getTime: "int option")

text \<open>
  A property of a JSON object that is optional on the wire is absent (reads as
  \<^verbatim>\<open>undefined\<close>), \<^verbatim>\<open>null\<close>, or present with a value.
\<close>

datatype 'a optional = Undefined | Null | Present 'a

text \<open>
  \<^verbatim>\<open>interface ThreatIndicator\<close>. The fields \<^verbatim>\<open>id\<close>, \<^verbatim>\<open>value\<close> and \<^verbatim>\<open>type\<close> are
  \<open>ioc_id\<close>, \<open>ioc_value\<close> and \<open>ioc_type\<close> here; \<^verbatim>\<open>score\<close> is documented as 0-100.
\<close>

record ThreatIndicator =
  ioc_id :: string
  ioc_value :: string
  ioc_type :: IOCType
  threatLevel :: ThreatLevel
  score :: int
  sources :: "string list"
  firstSeen :: Date
  lastSeen :: Date
  tags :: "string list"
  description :: "string optional"
  correlations :: "string list optional"

datatype FeedState = S_active | S_inactive | S_error

text \<open>\<^verbatim>\<open>interface ThreatFeed\<close>; \<^verbatim>\<open>id\<close>, \<^verbatim>\<open>name\<close>, \<^verbatim>\<open>description\<close>, \<^verbatim>\<open>url\<close> and
  \<^verbatim>\<open>status\<close> carry the prefix \<open>feed_\<close>.\<close>

record ThreatFeed =
  feed_id :: string
  feed_name :: string
  feed_description :: string
  feed_url :: string
  lastUpdated :: Date
  indicatorCount :: int
  feed_status :: FeedState
  reliability :: int

text \<open>\<^verbatim>\<open>interface ThreatStats\<close>.\<close>

record ThreatStats =
  totalIndicators :: nat
  criticalCount :: nat
  highCount :: nat
  mediumCount :: nat
  lowCount :: nat
  infoCount :: nat
  activeFeeds :: nat
  correlatedIOCs :: nat
  last24hNew :: nat


section \<open>The indicator table (component ThreatTable)\<close>

datatype SortField = F_score | F_lastSeen | F_type | F_threatLevel

datatype SortDirection = Asc | Desc

text \<open>The four \<^verbatim>\<open>useState\<close> cells of the component, with their initial values.\<close>

record TableState =
  sortField :: SortField
  sortDirection :: SortDirection
  copiedId :: "string option"
  expandedRows :: "string set"

definition initialTableState :: TableState where
  "initialTableState =
     \<lparr>sortField = F_score, sortDirection = Desc, copiedId = None, expandedRows = {}\<rparr>"

definition handleSort :: "SortField \<Rightarrow> TableState \<Rightarrow> TableState" where
  "handleSort fld st =
     (if sortField st = fld
      then st\<lparr>sortDirection := (if sortDirection st = Asc then Desc else Asc)\<rparr>
      else st\<lparr>sortField := fld, sortDirection := Desc\<rparr>)"









definition getScoreColor :: "int \<Rightarrow> string" where
  "getScoreColor s =
     (if s \<ge> 80 then ''text-destructive''
      else if s \<ge> 60 then ''text-orange-400''
      else if s \<ge> 40 then ''text-warning''
      else if s \<ge> 20 then ''text-primary''
      else ''text-accent'')"

text \<open>The colour class of the score bar, the conditional inside the row's \<^verbatim>\<open>className\<close>.\<close>

definition scoreBarColor :: "int \<Rightarrow> string" where
  "scoreBarColor s =
     (if s \<ge> 80 then ''bg-destructive''
      else if s \<ge> 60 then ''bg-orange-500''
      else if s \<ge> 40 then ''bg-warning''
      else if s \<ge> 20 then ''bg-primary''
      else ''bg-accent'')"

text \<open>
  \<^verbatim>\<open>setExpandedRows(prev => { const newSet = new Set(prev); ... return newSet; })\<close>:
  the updater applied to the state.
\<close>

definition toggleRowExpansion :: "string \<Rightarrow> TableState \<Rightarrow> TableState" where
  "toggleRowExpansion x st =
     st\<lparr>expandedRows :=
          (let newSet = expandedRows st
           in if x \<in> newSet then newSet - {x} else insert x newSet)\<rparr>"


section \<open>The API client (frontend/src/services/api.ts)\<close>

text \<open>
  What the client takes from its platform: the base URL (\<^verbatim>\<open>VITE_API_URL\<close> or its
  default), \<^verbatim>\<open>Date\<close>'s parser of strings (\<open>None\<close> for a string it does not read: an
  invalid date), the serialisation of \<^verbatim>\<open>URLSearchParams\<close>, \<^verbatim>\<open>Number.prototype.toString\<close>
  (decimal digits up to \<open>10 ^ 21\<close>, exponent notation from there), and the locale's
  number format of \<^verbatim>\<open>toLocaleString\<close>.
\<close>

record Platform =
  API_BASE_URL :: string
  dateParse :: "string \<Rightarrow> int option"
  urlSearchParams :: "(string \<times> string) list \<Rightarrow> string"
  numberToString :: "int \<Rightarrow> string"
  toLocaleString :: "int \<Rightarrow> string"

text \<open>The objects of \<^verbatim>\<open>GET /indicators\<close>, \<^verbatim>\<open>GET /feeds\<close> and \<^verbatim>\<open>GET /statistics\<close> as
  transmitted (snake case; timestamps as strings).\<close>

record IndicatorWire =
  w_id :: string
  w_value :: string
  w_type :: IOCType
  threat_level :: ThreatLevel
  w_score :: int
  w_sources :: "string list"
  first_seen :: string
  last_seen :: string
  w_tags :: "string list"
  w_description :: "string optional"
  w_correlations :: "string list optional"

record FeedWire =
  fw_id :: string
  fw_name :: string
  fw_description :: string
  fw_url :: string
  last_updated :: string
  indicator_count :: "int optional"
  fw_status :: FeedState
  fw_reliability :: int

record StatsWire =
  total_indicators :: nat
  critical_count :: nat
  high_count :: nat
  medium_count :: nat
  low_count :: nat
  info_count :: nat
  active_feeds :: nat
  correlated_iocs :: nat
  last_24h_new :: nat

text \<open>
  \<^verbatim>\<open>fetch\<close> either rejects (no response: a network failure) or resolves to a response;
  \<open>json\<close> is the parsed body, \<open>None\<close> when the body is not JSON and \<^verbatim>\<open>response.json()\<close>
  rejects.
\<close>

record 'a Response =
  ok :: bool
  status :: nat
  statusText :: string
  json :: "'a option"

datatype 'a FetchOutcome = Rejected string | Responded "'a Response"

record RequestInit =
  init_method :: "string option"
  init_headers :: "(string \<times> string) list"

record Request =
  req_url :: string
  req_method :: "string option"
  req_headers :: "string \<rightharpoonup> string"

text \<open>What a call of the client throws: the \<^verbatim>\<open>Error\<close> it makes itself, with its message,
  a rejection of \<^verbatim>\<open>fetch\<close>, or the \<^verbatim>\<open>SyntaxError\<close> of \<^verbatim>\<open>response.json()\<close>.\<close>

datatype ApiError = Error string | FetchRejected string | JsonSyntaxError

text \<open>The decimal digits of a number: an HTTP status in a template literal.\<close>

fun showNat :: "nat \<Rightarrow> string" where
  "showNat n = (if n < 10 then [''0123456789'' ! n] else showNat (n div 10) @ [''0123456789'' ! (n mod 10)])"

declare showNat.simps [simp del]

text \<open>The decimal digits of an integer, with its sign.\<close>

definition showInt :: "int \<Rightarrow> string" where
  "showInt i = (if i < 0 then CHR ''-'' # showNat (nat (- i)) else showNat (nat i))"

text \<open>The request \<^verbatim>\<open>apiFetch\<close> hands to \<^verbatim>\<open>fetch\<close>: the options spread, then the headers with
  \<^verbatim>\<open>Content-Type\<close> first and the options' headers over it.\<close>

definition mkRequest :: "Platform \<Rightarrow> string \<Rightarrow> RequestInit option \<Rightarrow> Request" where
  "mkRequest P endpoint options =
     \<lparr>req_url = API_BASE_URL P @ endpoint,
      req_method = (case options of None \<Rightarrow> None | Some init \<Rightarrow> init_method init),
      req_headers = [''Content-Type'' \<mapsto> ''application/json'']
                     ++ (case options of None \<Rightarrow> Map.empty | Some init \<Rightarrow> map_of (init_headers init))\<rparr>"

text \<open>
  \<^verbatim>\<open>apiFetch\<close>. The \<^verbatim>\<open>catch\<close> logs the error to the console and throws it again, so
  every failure inside the \<^verbatim>\<open>try\<close> is the failure of the call.
\<close>

definition apiFetch ::
  "Platform \<Rightarrow> (Request \<Rightarrow> 'a FetchOutcome) \<Rightarrow> string \<Rightarrow> RequestInit option \<Rightarrow> ApiError + 'a" where
  "apiFetch P fetch endpoint options =
     (case fetch (mkRequest P endpoint options) of
        Rejected why \<Rightarrow> Inl (FetchRejected why)
      | Responded response \<Rightarrow>
          if \<not> ok response
          then Inl (Error (''API error: '' @ showNat (status response) @ '' '' @ statusText response))
          else (case json response of
                  None \<Rightarrow> Inl JsonSyntaxError
                | Some body \<Rightarrow> Inr body))"

fun typeName :: "IOCType \<Rightarrow> string" where
  "typeName T_ip = ''ip''"
| "typeName T_domain = ''domain''"
| "typeName T_hash = ''hash''"
| "typeName T_url = ''url''"
| "typeName T_email = ''email''"

fun levelName :: "ThreatLevel \<Rightarrow> string" where
  "levelName L_critical = ''critical''"
| "levelName L_high = ''high''"
| "levelName L_medium = ''medium''"
| "levelName L_low = ''low''"
| "levelName L_info = ''info''"

record IndicatorParams =
  p_search :: "string option"
  p_types :: "IOCType list option"
  p_levels :: "ThreatLevel list option"
  p_sources :: "string list option"
  p_limit :: "int option"
  p_offset :: "int option"

text \<open>
  The query of \<^verbatim>\<open>fetchIndicators\<close>: \<^verbatim>\<open>search\<close>, \<^verbatim>\<open>limit\<close> and \<^verbatim>\<open>offset\<close> are appended
  when truthy (a non-empty string, a number other than 0), then every type, level and
  source.
\<close>

definition queryParams :: "Platform \<Rightarrow> IndicatorParams option \<Rightarrow> (string \<times> string) list" where
  "queryParams P params =
     (case params of
        None \<Rightarrow> []
      | Some p \<Rightarrow>
          (case p_search p of Some s \<Rightarrow> (if s \<noteq> [] then [(''search'', s)] else []) | None \<Rightarrow> [])
          @ (case p_limit p of Some n \<Rightarrow> (if n \<noteq> 0 then [(''limit'', numberToString P n)] else []) | None \<Rightarrow> [])
          @ (case p_offset p of Some n \<Rightarrow> (if n \<noteq> 0 then [(''offset'', numberToString P n)] else []) | None \<Rightarrow> [])
          @ (case p_types p of Some ts \<Rightarrow> map (\<lambda>t. (''types'', typeName t)) ts | None \<Rightarrow> [])
          @ (case p_levels p of Some ls \<Rightarrow> map (\<lambda>l. (''levels'', levelName l)) ls | None \<Rightarrow> [])
          @ (case p_sources p of Some ss \<Rightarrow> map (\<lambda>s. (''sources'', s)) ss | None \<Rightarrow> []))"

definition indicatorsEndpoint :: "Platform \<Rightarrow> IndicatorParams option \<Rightarrow> string" where
  "indicatorsEndpoint P params =
     (let query = urlSearchParams P (queryParams P params)
      in ''/indicators'' @ (if query \<noteq> [] then ''?'' @ query else []))"

definition fetchIndicators ::
  "Platform \<Rightarrow> (Request \<Rightarrow> IndicatorWire list FetchOutcome) \<Rightarrow> IndicatorParams option
     \<Rightarrow> ApiError + ThreatIndicator list" where
  "fetchIndicators P fetch params =
     (case apiFetch P fetch (indicatorsEndpoint P params) None of
        Inl e \<Rightarrow> Inl e
      | Inr data \<Rightarrow>
          Inr (map (\<lambda>indicator.
                 \<lparr>ioc_id = w_id indicator,
                  ioc_value = w_value indicator,
                  ioc_type = w_type indicator,
                  threatLevel = threat_level indicator,
                  score = w_score indicator,
                  sources = w_sources indicator,
                  firstSeen = Date (dateParse P (first_seen indicator)),
                  lastSeen = Date (dateParse P (last_seen indicator)),
                  tags = w_tags indicator,
                  description = w_description indicator,
                  correlations = w_correlations indicator\<rparr>) data))"

text \<open>\<^verbatim>\<open>feed.indicator_count || 0\<close>: the count when it is truthy, \<open>0\<close> when it is absent,
  \<^verbatim>\<open>null\<close> or \<open>0\<close>.\<close>

definition fetchFeeds ::
  "Platform \<Rightarrow> (Request \<Rightarrow> FeedWire list FetchOutcome) \<Rightarrow> ApiError + ThreatFeed list" where
  "fetchFeeds P fetch =
     (case apiFetch P fetch ''/feeds'' None of
        Inl e \<Rightarrow> Inl e
      | Inr data \<Rightarrow>
          Inr (map (\<lambda>feed.
                 \<lparr>feed_id = fw_id feed,
                  feed_name = fw_name feed,
                  feed_description = fw_description feed,
                  feed_url = fw_url feed,
                  lastUpdated = Date (dateParse P (last_updated feed)),
                  indicatorCount =
                    (case indicator_count feed of
                       Present n \<Rightarrow> (if n \<noteq> 0 then n else 0)
                     | _ \<Rightarrow> 0),
                  feed_status = fw_status feed,
                  reliability = fw_reliability feed\<rparr>) data))"

definition fetchStatistics ::
  "Platform \<Rightarrow> (Request \<Rightarrow> StatsWire FetchOutcome) \<Rightarrow> ApiError + ThreatStats" where
  "fetchStatistics P fetch =
     (case apiFetch P fetch ''/statistics'' None of
        Inl e \<Rightarrow> Inl e
      | Inr data \<Rightarrow>
          Inr \<lparr>totalIndicators = total_indicators data,
               criticalCount = critical_count data,
               highCount = high_count data,
               mediumCount = medium_count data,
               lowCount = low_count data,
               infoCount = info_count data,
               activeFeeds = active_feeds data,
               correlatedIOCs = correlated_iocs data,
               last24hNew = last_24h_new data\<rparr>)"

definition fetchIndicatorById ::
  "Platform \<Rightarrow> (Request \<Rightarrow> IndicatorWire FetchOutcome) \<Rightarrow> string \<Rightarrow> ApiError + ThreatIndicator" where
  "fetchIndicatorById P fetch i =
     (case apiFetch P fetch (''/indicators/'' @ i) None of
        Inl e \<Rightarrow> Inl e
      | Inr data \<Rightarrow>
          Inr \<lparr>ioc_id = w_id data,
               ioc_value = w_value data,
               ioc_type = w_type data,
               threatLevel = threat_level data,
               score = w_score data,
               sources = w_sources data,
               firstSeen = Date (dateParse P (first_seen data)),
               lastSeen = Date (dateParse P (last_seen data)),
               tags = w_tags data,
               description = w_description data,
               correlations = w_correlations data\<rparr>)"


section \<open>The feed list (component FeedStatus)\<close>

text \<open>The text of a feed's count: \<^verbatim>\<open>{(feed.indicatorCount || 0).toLocaleString()} IOCs\<close>.\<close>

definition iocCountText :: "Platform \<Rightarrow> ThreatFeed \<Rightarrow> string" where
  "iocCountText P feed =
     toLocaleString P (if indicatorCount feed \<noteq> 0 then indicatorCount feed else 0) @ '' IOCs''"


section \<open>Numbers of the chart\<close>

text \<open>
  A JavaScript number is an IEEE 754 double. The chart divides one count by another and
  multiplies by 100, so its numbers are not negative: a finite one is \<open>m * 2 ^ e\<close>, and
  \<^verbatim>\<open>Infinity\<close> and \<^verbatim>\<open>NaN\<close> come from a division by zero. Every operation gives the
  double nearest to the exact result, ties to the even significand. The range of the
  exponent is not modelled: with counts below \<open>2 ^ 53\<close> no result of the chart leaves
  it.
\<close>

datatype Number = Finite nat int | PosInfinity | NaN

text \<open>The exact value of a finite number.\<close>

fun valueOf :: "Number \<Rightarrow> rat option" where
  "valueOf (Finite m e) = Some (of_nat m * 2 powi e)"
| "valueOf PosInfinity = None"
| "valueOf NaN = None"

text \<open>The number of binary digits of \<open>n\<close>.\<close>

fun bits :: "nat \<Rightarrow> nat" where
  "bits n = (if n = 0 then 0 else Suc (bits (n div 2)))"

declare bits.simps [simp del]

text \<open>
  The double nearest to \<open>p / q\<close>, for positive \<open>p\<close> and \<open>q\<close>: \<open>e\<close> is the exponent of
  the quotient (\<open>2 ^ e \<le> p / q < 2 ^ (e + 1)\<close>), the quotient scaled by \<open>2 ^ (52 - e)\<close>
  has 53 binary digits before the point, and the remainder decides the rounding.
\<close>

definition roundQuot :: "nat \<Rightarrow> nat \<Rightarrow> Number" where
  "roundQuot p q =
     (let e0 = int (bits p) - int (bits q);
          e = (if q * 2 ^ nat e0 \<le> p * 2 ^ nat (- e0) then e0 else e0 - 1);
          k = 52 - e;
          num = p * 2 ^ nat k;
          den = q * 2 ^ nat (- k);
          n = num div den;
          r = num mod den;
          m = (if 2 * r < den then n else if den < 2 * r then n + 1 else if even n then n else n + 1)
      in Finite m (- k))"

text \<open>A count as a number: exact below \<open>2 ^ 53\<close>, the nearest double above.\<close>

definition fromNat :: "nat \<Rightarrow> Number" where
  "fromNat n = (if n < 2 ^ 53 then Finite n 0 else roundQuot n 1)"

text \<open>The operator \<^verbatim>\<open>/\<close>.\<close>

fun js_div :: "Number \<Rightarrow> Number \<Rightarrow> Number" where
  "js_div (Finite m e) (Finite n f) =
     (if n = 0 then (if m = 0 then NaN else PosInfinity)
      else if m = 0 then Finite 0 0
      else roundQuot (m * 2 ^ nat (e - f)) (n * 2 ^ nat (f - e)))"
| "js_div (Finite m e) PosInfinity = Finite 0 0"
| "js_div PosInfinity (Finite n f) = PosInfinity"
| "js_div PosInfinity PosInfinity = NaN"
| "js_div NaN y = NaN"
| "js_div x NaN = NaN"

text \<open>The operator \<^verbatim>\<open>*\<close>.\<close>

fun js_mul :: "Number \<Rightarrow> Number \<Rightarrow> Number" where
  "js_mul (Finite m e) (Finite n f) =
     (if m = 0 \<or> n = 0 then Finite 0 0
      else roundQuot (m * n * 2 ^ nat (e + f)) (2 ^ nat (- (e + f))))"
| "js_mul (Finite m e) PosInfinity = (if m = 0 then NaN else PosInfinity)"
| "js_mul PosInfinity (Finite n f) = (if n = 0 then NaN else PosInfinity)"
| "js_mul PosInfinity PosInfinity = PosInfinity"
| "js_mul NaN y = NaN"
| "js_mul x NaN = NaN"


section \<open>The distribution chart (component ThreatLevelChart)\<close>

text \<open>An entry of \<^verbatim>\<open>levels\<close>; its \<^verbatim>\<open>count\<close> is \<open>entry_count\<close> here.\<close>

record LevelEntry =
  label :: string
  entry_count :: nat
  color :: string
  percentage :: Number

text \<open>\<^verbatim>\<open>const levels = [...]\<close>, each percentage \<^verbatim>\<open>(count / total) * 100\<close>.\<close>

definition levels :: "ThreatStats \<Rightarrow> LevelEntry list" where
  "levels stats =
     (let total = totalIndicators stats in
      [\<lparr>label = ''Critical'', entry_count = criticalCount stats, color = ''bg-destructive'',
        percentage = js_mul (js_div (fromNat (criticalCount stats)) (fromNat total)) (fromNat 100)\<rparr>,
       \<lparr>label = ''High'', entry_count = highCount stats, color = ''bg-orange-500'',
        percentage = js_mul (js_div (fromNat (highCount stats)) (fromNat total)) (fromNat 100)\<rparr>,
       \<lparr>label = ''Medium'', entry_count = mediumCount stats, color = ''bg-warning'',
        percentage = js_mul (js_div (fromNat (mediumCount stats)) (fromNat total)) (fromNat 100)\<rparr>,
       \<lparr>label = ''Low'', entry_count = lowCount stats, color = ''bg-primary'',
        percentage = js_mul (js_div (fromNat (lowCount stats)) (fromNat total)) (fromNat 100)\<rparr>,
       \<lparr>label = ''Info'', entry_count = infoCount stats, color = ''bg-accent'',
        percentage = js_mul (js_div (fromNat (infoCount stats)) (fromNat total)) (fromNat 100)\<rparr>])"

text \<open>The sum of the five percentages, as an exact number; \<open>None\<close> when one of them is
  not finite.\<close>

definition percentageSum :: "ThreatStats \<Rightarrow> rat option" where
  "percentageSum stats =
     map_option sum_list (those (map (\<lambda>l. valueOf (percentage l)) (levels stats)))"

text \<open>One percentage of the chart, for the proofs.\<close>

definition pct :: "nat \<Rightarrow> nat \<Rightarrow> Number" where
  "pct c t = js_mul (js_div (fromNat c) (fromNat t)) (fromNat 100)"


section \<open>Threat-level buckets of the Scorer\<close>

text \<open>
  Modelled from the spec: the Scorer's \<^verbatim>\<open>level(score) -> ThreatLevel\<close> belongs to the
  aggregation engine, whose code is not among the sources. Section 4.4 of the spec:
  ``Bucket thresholds (illustrative, must be fixed and documented): \<^verbatim>\<open>score>=80\<close> critical,
  \<^verbatim>\<open>>=60\<close> high, \<^verbatim>\<open>>=40\<close> medium, \<^verbatim>\<open>>=20\<close> low, else info. Thresholds are
  configuration''. The thresholds are a record, the documented ones its default.
\<close>

record Thresholds =
  t_critical :: int
  t_high :: int
  t_medium :: int
  t_low :: int

definition defaultThresholds :: Thresholds where
  "defaultThresholds = \<lparr>t_critical = 80, t_high = 60, t_medium = 40, t_low = 20\<rparr>"

definition levelFor :: "Thresholds \<Rightarrow> int \<Rightarrow> ThreatLevel" where
  "levelFor th s =
     (if s \<ge> t_critical th then L_critical
      else if s \<ge> t_high th then L_high
      else if s \<ge> t_medium th then L_medium
      else if s \<ge> t_low th then L_low
      else L_info)"

definition level :: "int \<Rightarrow> ThreatLevel" where
  "level = levelFor defaultThresholds"


section \<open>The aggregation engine\<close>

text \<open>
  Modelled from the spec: the aggregation engine (Normalizer, Merge Engine, Scorer,
  Correlator, Indicator Store, Statistics Aggregator) is the backend of the repository
  and none of its code is among the sources, which hold the dashboard only. Every
  definition of this section follows sections 3 and 4 of the spec. Timestamps are
  integers (seconds); ids are minted from a counter.
\<close>

text \<open>Modelled from the spec: the Normalizer's output (4.2), a draft with its source feed
  and observation timestamp; the Normalizer itself is absent.\<close>

record Draft =
  d_type :: IOCType
  d_value :: string
  d_source :: string
  d_timestamp :: int
  d_tags :: "string list"
  d_description :: "string option"

text \<open>Modelled from the spec: the canonical record \<^verbatim>\<open>Indicator\<close> (3); the backend's type is
  absent. \<open>ind_createdAt\<close> is ``the first \<^verbatim>\<open>firstSeen\<close> ever recorded, not the mutable
  one'' (4.8).\<close>

record Indicator =
  ind_id :: nat
  ind_value :: string
  ind_type :: IOCType
  ind_level :: ThreatLevel
  ind_score :: int
  ind_sources :: "string list"
  ind_firstSeen :: int
  ind_lastSeen :: int
  ind_createdAt :: int
  ind_tags :: "string list"
  ind_description :: "string option"
  ind_correlations :: "nat set"

text \<open>
  Modelled from the spec: what the spec leaves to configuration, the backend's values
  being absent. The Scorer's formula is not given, only that it is ``a pure function of
  the indicator's current fields'' computed ``from source count, feed reliability, tag
  signals, and recency'' (4.4): \<open>scoreFn\<close> is any function of the sources, the tags and
  \<^verbatim>\<open>lastSeen\<close>. \<open>resolutionLink\<close> is rule (c) of the Correlator, ``an explicit resolution
  tag if the connector supplied one'' (4.5).
\<close>

record Engine =
  scoreFn :: "string list \<Rightarrow> string list \<Rightarrow> int \<Rightarrow> int"
  thresholds :: Thresholds
  resolutionLink :: "Indicator \<Rightarrow> Indicator \<Rightarrow> bool"

text \<open>Modelled from the spec: the Indicator Store (4.6), absent from the sources: the
  indicators in order of creation and the next id to mint.\<close>

record Store =
  indicators :: "Indicator list"
  nextId :: nat

text \<open>Modelled from the spec: the Store before any ingestion (3, Lifecycle).\<close>

definition emptyStore :: Store where
  "emptyStore = \<lparr>indicators = [], nextId = 0\<rparr>"

text \<open>Modelled from the spec: the case-insensitive comparison of tags (3); the backend's
  helper is absent. Lower case of the ASCII letters.\<close>

definition lowerChar :: "char \<Rightarrow> char" where
  "lowerChar c =
     (case map_of (zip ''ABCDEFGHIJKLMNOPQRSTUVWXYZ'' ''abcdefghijklmnopqrstuvwxyz'') c of
        Some l \<Rightarrow> l
      | None \<Rightarrow> c)"

text \<open>Modelled from the spec: a tag as it is compared (3).\<close>

definition lower :: "string \<Rightarrow> string" where
  "lower s = map lowerChar s"

text \<open>Modelled from the spec: ``union \<^verbatim>\<open>sources\<close> with \<^verbatim>\<open>draft.source\<close>'' (4.3), a set shown
  first-seen-source-first (3).\<close>

definition addSource :: "string list \<Rightarrow> string \<Rightarrow> string list" where
  "addSource srcs s = (if s \<in> set srcs then srcs else srcs @ [s])"

text \<open>Modelled from the spec: one tag into a tag set, ``deduplicated, case-insensitive
  comparison, original casing of first occurrence retained'' (3).\<close>

definition addTag :: "string list \<Rightarrow> string \<Rightarrow> string list" where
  "addTag ts t = (if lower t \<in> set (map lower ts) then ts else ts @ [t])"

text \<open>Modelled from the spec: ``union \<^verbatim>\<open>tags\<close>'' (4.3).\<close>

definition tagUnion :: "string list \<Rightarrow> string list \<Rightarrow> string list" where
  "tagUnion ts new = foldl addTag ts new"

text \<open>Modelled from the spec: the natural key \<^verbatim>\<open>(type, value)\<close> of an indicator (3).\<close>

definition keyOf :: "Indicator \<Rightarrow> IOCType \<times> string" where
  "keyOf i = (ind_type i, ind_value i)"

text \<open>Modelled from the spec: the key \<^verbatim>\<open>(draft.type, draft.value)\<close> of a draft (4.3).\<close>

definition draftKey :: "Draft \<Rightarrow> IOCType \<times> string" where
  "draftKey d = (d_type d, d_value d)"

text \<open>Modelled from the spec: ``recompute \<^verbatim>\<open>score\<close>/\<^verbatim>\<open>threatLevel\<close> (delegated to Scorer)
  after every merge'' (4.3), the score an integer of 0-100 (3).\<close>

definition rescore :: "Engine \<Rightarrow> Indicator \<Rightarrow> Indicator" where
  "rescore E i =
     (let s = max 0 (min 100 (scoreFn E (ind_sources i) (ind_tags i) (ind_lastSeen i)))
      in i\<lparr>ind_score := s, ind_level := levelFor (thresholds E) s\<rparr>)"

text \<open>Modelled from the spec: whether a draft ``provides a non-empty'' description (4.3).\<close>

definition nonEmpty :: "string option \<Rightarrow> bool" where
  "nonEmpty t = (case t of None \<Rightarrow> False | Some s \<Rightarrow> s \<noteq> [])"

text \<open>Modelled from the spec: ``if absent: create a new \<^verbatim>\<open>Indicator\<close> with a freshly minted
  \<^verbatim>\<open>id\<close>, copy draft fields, \<^verbatim>\<open>sources = {draft.source}\<close>'' (4.3), \<^verbatim>\<open>firstSeen\<close> and
  \<^verbatim>\<open>lastSeen\<close> both the observation timestamp (4.2).\<close>

definition newIndicator :: "Engine \<Rightarrow> nat \<Rightarrow> Draft \<Rightarrow> Indicator" where
  "newIndicator E n d =
     rescore E
       \<lparr>ind_id = n, ind_value = d_value d, ind_type = d_type d, ind_level = L_info, ind_score = 0,
        ind_sources = [d_source d], ind_firstSeen = d_timestamp d, ind_lastSeen = d_timestamp d,
        ind_createdAt = d_timestamp d, ind_tags = d_tags d, ind_description = d_description d,
        ind_correlations = {}\<rparr>"

text \<open>Modelled from the spec: ``if present: union \<^verbatim>\<open>sources\<close> with \<^verbatim>\<open>draft.source\<close>; union
  \<^verbatim>\<open>tags\<close>; \<^verbatim>\<open>firstSeen = min(existing, draft.timestamp)\<close>; \<^verbatim>\<open>lastSeen = max(existing,
  draft.timestamp)\<close>; replace \<^verbatim>\<open>description\<close> only if draft provides a non-empty one''
  (4.3).\<close>

definition mergeInto :: "Engine \<Rightarrow> Draft \<Rightarrow> Indicator \<Rightarrow> Indicator" where
  "mergeInto E d i =
     rescore E
       (i\<lparr>ind_sources := addSource (ind_sources i) (d_source d),
          ind_tags := tagUnion (ind_tags i) (d_tags d),
          ind_firstSeen := min (ind_firstSeen i) (d_timestamp d),
          ind_lastSeen := max (ind_lastSeen i) (d_timestamp d),
          ind_description := (if nonEmpty (d_description d) then d_description d else ind_description i)\<rparr>)"

text \<open>Modelled from the spec: the Merge Engine's contract
  \<^verbatim>\<open>merge(draft, storeSnapshot) -> (updatedIndicator, isNew)\<close> (4.3).\<close>

definition merge :: "Engine \<Rightarrow> Draft \<Rightarrow> Store \<Rightarrow> Indicator \<times> bool" where
  "merge E d st =
     (case find (\<lambda>i. keyOf i = draftKey d) (indicators st) of
        None \<Rightarrow> (newIndicator E (nextId st) d, True)
      | Some existing \<Rightarrow> (mergeInto E d existing, False))"

text \<open>Modelled from the spec: the Store's \<^verbatim>\<open>upsert(indicator)\<close> on its index keyed by
  \<^verbatim>\<open>(type, value)\<close> (4.6): the record of that key is replaced, a new key is appended.\<close>

fun upsertList :: "Indicator \<Rightarrow> Indicator list \<Rightarrow> Indicator list" where
  "upsertList i [] = [i]"
| "upsertList i (j # js) = (if keyOf j = keyOf i then i # js else j # upsertList i js)"

text \<open>Modelled from the spec: \<^verbatim>\<open>upsert\<close> on the Store (4.6).\<close>

definition upsert :: "Indicator \<Rightarrow> Store \<Rightarrow> Store" where
  "upsert i st = st\<lparr>indicators := upsertList i (indicators st)\<rparr>"

text \<open>Modelled from the spec: the ingestion of one draft, ``Normalizer produces drafts, Merge
  Engine updates the Store'' (2): the merge, then the upsert of its result.\<close>

definition ingest :: "Engine \<Rightarrow> Draft \<Rightarrow> Store \<Rightarrow> Store" where
  "ingest E d st =
     (case merge E d st of
        (i, isNew) \<Rightarrow> upsert i (if isNew then st\<lparr>nextId := Suc (nextId st)\<rparr> else st))"

text \<open>Modelled from the spec: the ``hostname component'' of a URL (4.5, rule a); the
  backend's parser is absent. The scheme is dropped and the host ends at the first of
  \<^verbatim>\<open>/ ? # :\<close>.\<close>

fun dropScheme :: "string \<Rightarrow> string" where
  "dropScheme s =
     (if take 7 s = ''http://'' then drop 7 s
      else if take 8 s = ''https://'' then drop 8 s
      else s)"

text \<open>Modelled from the spec: the hostname of a URL (4.5, rule a).\<close>

definition hostname :: "string \<Rightarrow> string" where
  "hostname u = takeWhile (\<lambda>c. c \<notin> set ''/?#:'') (dropScheme u)"

text \<open>Modelled from the spec: the number of tags two indicators have in common (4.5,
  rule b), compared as tags are.\<close>

definition sharedTags :: "Indicator \<Rightarrow> Indicator \<Rightarrow> nat" where
  "sharedTags a b =
     length (remdups (filter (\<lambda>t. t \<in> set (map lower (ind_tags b))) (map lower (ind_tags a))))"

text \<open>Modelled from the spec: the candidate relation rules of the Correlator (4.5): (a) a
  \<^verbatim>\<open>url\<close> whose hostname is a \<^verbatim>\<open>domain\<close> indicator's value, (b) two indicators with at
  least two tags in common, (c) a \<^verbatim>\<open>domain\<close> and an \<^verbatim>\<open>ip\<close> linked by a resolution tag.\<close>

definition candidate :: "Engine \<Rightarrow> Indicator \<Rightarrow> Indicator \<Rightarrow> bool" where
  "candidate E a b =
     ((ind_type a = T_url \<and> ind_type b = T_domain \<and> hostname (ind_value a) = ind_value b)
      \<or> 2 \<le> sharedTags a b
      \<or> (ind_type a = T_domain \<and> ind_type b = T_ip \<and> resolutionLink E a b))"

text \<open>Modelled from the spec: the discovered pairs, computed ``into a side structure''
  over the full indicator set (4.5); an indicator is not paired with itself
  (\<^verbatim>\<open>correlations\<close> is a ``set of other indicator IDs'', 3).\<close>

definition discover :: "Engine \<Rightarrow> Indicator list \<Rightarrow> (nat \<times> nat) list" where
  "discover E inds =
     concat (map (\<lambda>a. map (\<lambda>b. (ind_id a, ind_id b))
                         (filter (\<lambda>b. ind_id b \<noteq> ind_id a \<and> candidate E a b) inds)) inds)"

text \<open>Modelled from the spec: ``for every discovered pair, add each ID to the other's
  \<^verbatim>\<open>correlations\<close> set'' (4.5): the ids paired with \<open>n\<close>, on either side.\<close>

definition linksOf :: "(nat \<times> nat) list \<Rightarrow> nat \<Rightarrow> nat set" where
  "linksOf links n =
     set (map snd (filter (\<lambda>p. fst p = n) links) @ map fst (filter (\<lambda>p. snd p = n) links))"

text \<open>Modelled from the spec: the correlations of one indicator replaced by those of the
  side structure (4.5).\<close>

definition setLinks :: "(nat \<times> nat) list \<Rightarrow> Indicator \<Rightarrow> Indicator" where
  "setLinks links i = i\<lparr>ind_correlations := linksOf links (ind_id i)\<rparr>"

text \<open>Modelled from the spec: one correlation pass, ``recomputed from scratch each cycle''
  and applied ``atomically against the current snapshot'' (4.5).\<close>

definition correlate :: "Engine \<Rightarrow> Store \<Rightarrow> Store" where
  "correlate E st =
     (let links = discover E (indicators st)
      in st\<lparr>indicators := map (setLinks links) (indicators st)\<rparr>)"

text \<open>Modelled from the spec: the states the Store can reach: ``mutation is only performed
  by Merge Engine (per-indicator) and Correlator (correlation links)'' (4.6), from the
  empty Store, in any order.\<close>

inductive reachable :: "Engine \<Rightarrow> Store \<Rightarrow> bool" for E where
  reach_empty: "reachable E emptyStore"
| reach_ingest: "reachable E st \<Longrightarrow> reachable E (ingest E d st)"
| reach_correlate: "reachable E st \<Longrightarrow> reachable E (correlate E st)"





text \<open>Modelled from the spec: ``symmetric correlation: for all indicators A, B:
  \<^verbatim>\<open>B.id\<close> in \<^verbatim>\<open>A.correlations\<close> iff \<^verbatim>\<open>A.id\<close> in \<^verbatim>\<open>B.correlations\<close>'' (8).\<close>

definition symmetricLinks :: "Indicator list \<Rightarrow> bool" where
  "symmetricLinks inds =
     (\<forall>a \<in> set inds. \<forall>b \<in> set inds.
        (ind_id b \<in> ind_correlations a) = (ind_id a \<in> ind_correlations b))"

text \<open>Two notions for the proofs: every id and every correlation link of the indicators is
  below \<open>n\<close>; and the part of an indicator the correlations are about.\<close>

definition idsBelow :: "nat \<Rightarrow> Indicator list \<Rightarrow> bool" where
  "idsBelow n inds = (\<forall>i \<in> set inds. ind_id i < n \<and> (\<forall>j \<in> ind_correlations i. j < n))"

definition view :: "Indicator \<Rightarrow> nat \<times> nat set" where
  "view i = (ind_id i, ind_correlations i)"


text \<open>Modelled from the spec: the count of one threat level, ``counts per
  \<^verbatim>\<open>threatLevel\<close>'' of the Statistics Aggregator (4.8), which is absent from the sources.\<close>

definition countLevel :: "ThreatLevel \<Rightarrow> Indicator list \<Rightarrow> nat" where
  "countLevel l inds = length (filter (\<lambda>i. ind_level i = l) inds)"

text \<open>Modelled from the spec: the Statistics Aggregator (4.8), absent from the sources, over
  the Store, the latest status of every feed and the current time: ``counts per
  \<^verbatim>\<open>threatLevel\<close>, \<^verbatim>\<open>activeFeeds\<close> = count of feeds whose latest cycle status is not
  \<^verbatim>\<open>error\<close>/\<^verbatim>\<open>inactive\<close>, \<^verbatim>\<open>correlatedIOCs\<close> = count of indicators with a non-empty
  \<^verbatim>\<open>correlations\<close> set, \<^verbatim>\<open>last24hNew\<close> = count of indicators whose creation time falls
  within the trailing 24 hours'', in the shape of \<^verbatim>\<open>GET /statistics\<close> (6).\<close>

definition statistics :: "FeedState list \<Rightarrow> int \<Rightarrow> Store \<Rightarrow> StatsWire" where
  "statistics feeds now st =
     \<lparr>total_indicators = length (indicators st),
      critical_count = countLevel L_critical (indicators st),
      high_count = countLevel L_high (indicators st),
      medium_count = countLevel L_medium (indicators st),
      low_count = countLevel L_low (indicators st),
      info_count = countLevel L_info (indicators st),
      active_feeds = length (filter (\<lambda>s. s \<noteq> S_error \<and> s \<noteq> S_inactive) feeds),
      correlated_iocs = length (filter (\<lambda>i. ind_correlations i \<noteq> {}) (indicators st)),
      last_24h_new = length (filter (\<lambda>i. now - 86400 \<le> ind_createdAt i \<and> ind_createdAt i \<le> now)
                               (indicators st))\<rparr>"


section \<open>The ordering the spec gives as its example\<close>



section \<open>Sample data\<close>


definition sampleWire :: IndicatorWire where
  "sampleWire =
     \<lparr>w_id = ''ioc-7'', w_value = ''evil.example'', w_type = T_domain, threat_level = L_high,
      w_score = 72, w_sources = [''AlienVault OTX''], first_seen = ''2024-01-15T10:30:00'',
      last_seen = ''2024-02-01T08:00:00'', w_tags = [''c2'', ''malware''],
      w_description = Present ''command and control'', w_correlations = Null\<rparr>"

definition sampleFeedWire :: "int optional \<Rightarrow> FeedWire" where
  "sampleFeedWire c =
     \<lparr>fw_id = ''otx'', fw_name = ''AlienVault OTX'', fw_description = ''community feed'',
      fw_url = ''https://otx.alienvault.com'', last_updated = ''2024-02-01T08:00:00'',
      indicator_count = c, fw_status = S_active, fw_reliability = 4\<rparr>"

text \<open>A platform for the examples: two timestamps it parses, the query serialisation for
  names and values without reserved characters (pairs \<^verbatim>\<open>name=value\<close> joined by
  \<^verbatim>\<open>&\<close>), decimal digits for integers below \<open>10 ^ 21\<close>, and the number format of the
  locale \<^verbatim>\<open>en-US\<close> (digits in groups of three).\<close>

fun sampleJoin :: "(string \<times> string) list \<Rightarrow> string" where
  "sampleJoin [] = []"
| "sampleJoin [(k, v)] = k @ ''='' @ v"
| "sampleJoin ((k, v) # p # ps) = k @ ''='' @ v @ ''&'' @ sampleJoin (p # ps)"

fun groupDigits :: "string \<Rightarrow> string" where
  "groupDigits (a # b # c # d # rest) = a # b # c # CHR '','' # groupDigits (d # rest)"
| "groupDigits ds = ds"

definition sampleLocale :: "int \<Rightarrow> string" where
  "sampleLocale i =
     (if i < 0 then CHR ''-'' # rev (groupDigits (rev (showNat (nat (- i)))))
      else rev (groupDigits (rev (showNat (nat i)))))"

definition samplePlatform :: Platform where
  "samplePlatform =
     \<lparr>API_BASE_URL = ''http://localhost:8000/api/v1'',
      dateParse = (\<lambda>s. if s = ''2024-01-15T10:30:00'' then Some 1705314600000
                        else if s = ''2024-02-01T08:00:00'' then Some 1706774400000 else None),
      urlSearchParams = sampleJoin,
      numberToString = showInt,
      toLocaleString = sampleLocale\<rparr>"

text \<open>A server that answers every request with the same response.\<close>

definition respond :: "bool \<Rightarrow> nat \<Rightarrow> string \<Rightarrow> 'a option \<Rightarrow> Request \<Rightarrow> 'a FetchOutcome" where
  "respond good code txt b req =
     Responded \<lparr>ok = good, status = code, statusText = txt, json = b\<rparr>"


text \<open>An engine for the examples: thirty points per source and twenty-five for the tag
  \<^verbatim>\<open>c2\<close>, the documented thresholds, no resolution tags.\<close>

definition sampleEngine :: Engine where
  "sampleEngine =
     \<lparr>scoreFn = (\<lambda>srcs ts seen. 30 * int (length srcs) + (if ''c2'' \<in> set (map lower ts) then 25 else 0)),
      thresholds = defaultThresholds,
      resolutionLink = (\<lambda>a b. False)\<rparr>"

definition sampleDraft :: "IOCType \<Rightarrow> string \<Rightarrow> string \<Rightarrow> int \<Rightarrow> string list \<Rightarrow> Draft" where
  "sampleDraft t v s ts tg =
     \<lparr>d_type = t, d_value = v, d_source = s, d_timestamp = ts, d_tags = tg, d_description = None\<rparr>"




text \<open>A store for the examples: a domain reported by two feeds, a URL on that domain, and a
  correlation pass.\<close>

definition sampleStore :: Store where
  "sampleStore =
     correlate sampleEngine
       (ingest sampleEngine (sampleDraft T_url ''http://evil.example/x'' ''Mock-B'' 30 [])
         (ingest sampleEngine (sampleDraft T_domain ''evil.example'' ''Mock-B'' 20 [''c2''])
           (ingest sampleEngine (sampleDraft T_domain ''evil.example'' ''OTX-mock'' 10 [''scanner''])
             emptyStore)))"


text \<open>Statistics for the examples: three indicators, one in each of three levels.\<close>

definition sampleThirds :: ThreatStats where
  "sampleThirds =
     \<lparr>totalIndicators = 3, criticalCount = 1, highCount = 1, mediumCount = 1,
      lowCount = 0, infoCount = 0, activeFeeds = 1, correlatedIOCs = 0, last24hNew = 0\<rparr>"


section \<open>Decimal digits\<close>

lemma showNat_digit: "n < 10 \<Longrightarrow> showNat n = [''0123456789'' ! n]"
  by (simp add: showNat.simps)

lemma showNat_step:
  "10 \<le> n \<Longrightarrow> showNat n = showNat (n div 10) @ [''0123456789'' ! (n mod 10)]"
  by (subst showNat.simps) simp


section \<open>Row expansion\<close>

text \<open>
  C9. \<open>toggleRowExpansion x\<close> removes \<open>x\<close> from the set of expanded rows when it is there
  and adds it when it is not, changes the membership of no other id and no other cell of
  the state, and applied twice gives the state back.
\<close>

theorem toggleRowExpansion_involution:
  "(x \<in> expandedRows st \<longrightarrow> expandedRows (toggleRowExpansion x st) = expandedRows st - {x})
   \<and> (x \<notin> expandedRows st \<longrightarrow> expandedRows (toggleRowExpansion x st) = insert x (expandedRows st))
   \<and> (\<forall>y. y \<noteq> x \<longrightarrow> (y \<in> expandedRows (toggleRowExpansion x st)) = (y \<in> expandedRows st))
   \<and> toggleRowExpansion x (toggleRowExpansion x st) = st"
  by (auto simp: toggleRowExpansion_def Let_def insert_absorb)

theorem toggleRowExpansion_involution_witness:
  "expandedRows (toggleRowExpansion ''a'' (initialTableState\<lparr>expandedRows := {''a'', ''b''}\<rparr>)) = {''b''}
   \<and> expandedRows (toggleRowExpansion ''c'' (initialTableState\<lparr>expandedRows := {''a'', ''b''}\<rparr>))
       = {''a'', ''b'', ''c''}
   \<and> toggleRowExpansion ''a'' (toggleRowExpansion ''a'' (initialTableState\<lparr>expandedRows := {''a'', ''b''}\<rparr>))
       = initialTableState\<lparr>expandedRows := {''a'', ''b''}\<rparr>"
  using toggleRowExpansion_involution [of "''a''" "initialTableState\<lparr>expandedRows := {''a'', ''b''}\<rparr>"]
    toggleRowExpansion_involution [of "''c''" "initialTableState\<lparr>expandedRows := {''a'', ''b''}\<rparr>"]
  by (auto simp: initialTableState_def)


section \<open>Score colours\<close>

lemma level_iff:
  "(level s = L_critical) = (80 \<le> s)"
  "(level s = L_high) = (60 \<le> s \<and> s < 80)"
  "(level s = L_medium) = (40 \<le> s \<and> s < 60)"
  "(level s = L_low) = (20 \<le> s \<and> s < 40)"
  "(level s = L_info) = (s < 20)"
  by (auto simp: level_def levelFor_def defaultThresholds_def)


text \<open>
  C5. The bucket of a score is fixed by the thresholds 80, 60, 40 and 20, and the two score
  colourings of ThreatTable (\<open>getScoreColor\<close> and the bar's colour) give one colour per
  bucket, in the bucket order: each changes between \<open>s - 1\<close> and \<open>s\<close> exactly at the
  four thresholds. It holds for every integer score, so for every score in 0-100.
\<close>

theorem score_colour_buckets:
  "(level s = L_critical) = (80 \<le> s)
   \<and> (level s = L_high) = (60 \<le> s \<and> s < 80)
   \<and> (level s = L_medium) = (40 \<le> s \<and> s < 60)
   \<and> (level s = L_low) = (20 \<le> s \<and> s < 40)
   \<and> (level s = L_info) = (s < 20)
   \<and> (getScoreColor s = ''text-destructive'') = (level s = L_critical)
   \<and> (getScoreColor s = ''text-orange-400'') = (level s = L_high)
   \<and> (getScoreColor s = ''text-warning'') = (level s = L_medium)
   \<and> (getScoreColor s = ''text-primary'') = (level s = L_low)
   \<and> (getScoreColor s = ''text-accent'') = (level s = L_info)
   \<and> (scoreBarColor s = ''bg-destructive'') = (level s = L_critical)
   \<and> (scoreBarColor s = ''bg-orange-500'') = (level s = L_high)
   \<and> (scoreBarColor s = ''bg-warning'') = (level s = L_medium)
   \<and> (scoreBarColor s = ''bg-primary'') = (level s = L_low)
   \<and> (scoreBarColor s = ''bg-accent'') = (level s = L_info)
   \<and> (getScoreColor (s - 1) \<noteq> getScoreColor s) = (s \<in> {20, 40, 60, 80})
   \<and> (scoreBarColor (s - 1) \<noteq> scoreBarColor s) = (s \<in> {20, 40, 60, 80})"
  unfolding level_iff
  by (simp add: getScoreColor_def scoreBarColor_def)


section \<open>Row order\<close>








section \<open>Errors of the client\<close>

text \<open>
  C8. When the response is not ok, \<open>apiFetch\<close>, and so \<open>fetchIndicatorById\<close>, fails with
  the \<^verbatim>\<open>Error\<close> whose message carries the status and the status text; a value is returned
  only from an ok response, and it is that response's body.
\<close>

theorem apiFetch_not_ok_raises:
  "(\<forall>response. fetch (mkRequest P endpoint options) = Responded response \<and> \<not> ok response \<longrightarrow>
       apiFetch P fetch endpoint options
         = Inl (Error (''API error: '' @ showNat (status response) @ '' '' @ statusText response)))
   \<and> (\<forall>body. apiFetch P fetch endpoint options = Inr body \<longrightarrow>
         (\<exists>response. fetch (mkRequest P endpoint options) = Responded response
            \<and> ok response \<and> json response = Some body))
   \<and> (\<forall>response. fetch1 (mkRequest P (''/indicators/'' @ i) None) = Responded response \<and> \<not> ok response \<longrightarrow>
         fetchIndicatorById P fetch1 i
           = Inl (Error (''API error: '' @ showNat (status response) @ '' '' @ statusText response)))
   \<and> (\<forall>record. fetchIndicatorById P fetch1 i = Inr record \<longrightarrow>
         (\<exists>response data. fetch1 (mkRequest P (''/indicators/'' @ i) None) = Responded response
            \<and> ok response \<and> json response = Some data \<and> ioc_id record = w_id data))"
  by (auto simp: apiFetch_def fetchIndicatorById_def split: FetchOutcome.splits option.splits sum.splits if_splits)


theorem apiFetch_not_ok_raises_witness:
  "fetchIndicatorById samplePlatform (respond False 404 ''Not Found'' None) ''missing''
     = Inl (Error ''API error: 404 Not Found'')
   \<and> apiFetch samplePlatform (respond False 500 ''Internal Server Error'' (Some sampleWire)) ''/indicators/ioc-7'' None
     = Inl (Error ''API error: 500 Internal Server Error'')
   \<and> (\<exists>r. respond True 200 ''OK'' (Some sampleWire) (mkRequest samplePlatform ''/indicators/ioc-7'' None)
            = Responded r \<and> ok r \<and> json r = Some sampleWire)"
  using apiFetch_not_ok_raises [of "respond False 500 ''Internal Server Error'' (Some sampleWire)"
      samplePlatform "''/indicators/ioc-7''" None "respond False 404 ''Not Found'' None" "''missing''"]
    apiFetch_not_ok_raises [of "respond True 200 ''OK'' (Some sampleWire)"
      samplePlatform "''/indicators/ioc-7''" None "respond False 404 ''Not Found'' None" "''missing''"]
  by (simp add: respond_def showNat_digit showNat_step apiFetch_def)


section \<open>The two indicator transformations\<close>

text \<open>
  C6. For a wire object that is element \<open>n\<close> of an ok response to \<^verbatim>\<open>GET /indicators\<close> and
  the body of an ok response to \<^verbatim>\<open>GET /indicators/{id}\<close>, \<open>fetchIndicators\<close> at \<open>n\<close> and
  \<open>fetchIndicatorById\<close> give the same record: every field is the wire's, with
  \<^verbatim>\<open>threat_level\<close> as \<open>threatLevel\<close> and the two timestamps parsed into dates.
\<close>

theorem fetchIndicators_agrees_with_fetchIndicatorById:
  assumes "fetchAll (mkRequest P (indicatorsEndpoint P params) None) = Responded listResponse"
    and "ok listResponse" and "json listResponse = Some elements"
    and "fetchOne (mkRequest P (''/indicators/'' @ i) None) = Responded oneResponse"
    and "ok oneResponse" and "json oneResponse = Some wire"
    and "n < length elements" and "elements ! n = wire"
  shows "\<exists>list one.
           fetchIndicators P fetchAll params = Inr list
           \<and> fetchIndicatorById P fetchOne i = Inr one
           \<and> length list = length elements
           \<and> list ! n = one
           \<and> ioc_id one = w_id wire
           \<and> ioc_value one = w_value wire
           \<and> ioc_type one = w_type wire
           \<and> threatLevel one = threat_level wire
           \<and> score one = w_score wire
           \<and> sources one = w_sources wire
           \<and> firstSeen one = Date (dateParse P (first_seen wire))
           \<and> lastSeen one = Date (dateParse P (last_seen wire))
           \<and> tags one = w_tags wire
           \<and> description one = w_description wire
           \<and> correlations one = w_correlations wire"
  using assms by (simp add: fetchIndicators_def fetchIndicatorById_def apiFetch_def)


theorem fetchIndicators_agrees_with_fetchIndicatorById_witness:
  "fetchIndicatorById samplePlatform (respond True 200 ''OK'' (Some sampleWire)) ''ioc-7''
     = Inr \<lparr>ioc_id = ''ioc-7'', ioc_value = ''evil.example'', ioc_type = T_domain,
            threatLevel = L_high, score = 72, sources = [''AlienVault OTX''],
            firstSeen = Date (Some 1705314600000), lastSeen = Date (Some 1706774400000),
            tags = [''c2'', ''malware''], description = Present ''command and control'',
            correlations = Null\<rparr>
   \<and> map_sum id (\<lambda>list. list ! 1)
        (fetchIndicators samplePlatform
           (respond True 200 ''OK'' (Some [sampleWire\<lparr>w_id := ''ioc-1''\<rparr>, sampleWire]))
           (Some \<lparr>p_search = None, p_types = None, p_levels = None, p_sources = None,
                  p_limit = Some 1000, p_offset = None\<rparr>))
     = fetchIndicatorById samplePlatform (respond True 200 ''OK'' (Some sampleWire)) ''ioc-7''"
  using fetchIndicators_agrees_with_fetchIndicatorById
    [of "respond True 200 ''OK'' (Some [sampleWire\<lparr>w_id := ''ioc-1''\<rparr>, sampleWire])" samplePlatform
       "Some \<lparr>p_search = None, p_types = None, p_levels = None, p_sources = None,
               p_limit = Some 1000, p_offset = None\<rparr>"
       "\<lparr>ok = True, status = 200, statusText = ''OK'', json = Some [sampleWire\<lparr>w_id := ''ioc-1''\<rparr>, sampleWire]\<rparr>"
       "[sampleWire\<lparr>w_id := ''ioc-1''\<rparr>, sampleWire]"
       "respond True 200 ''OK'' (Some sampleWire)" "''ioc-7''"
       "\<lparr>ok = True, status = 200, statusText = ''OK'', json = Some sampleWire\<rparr>" sampleWire 1]
  by (auto simp: respond_def sampleWire_def samplePlatform_def)


section \<open>Feed counts\<close>

text \<open>
  C10. For a feed of an ok response to \<^verbatim>\<open>GET /feeds\<close> whose \<^verbatim>\<open>indicator_count\<close> is absent,
  \<^verbatim>\<open>null\<close> or \<open>0\<close>, \<open>fetchFeeds\<close> gives the count \<open>0\<close> and FeedStatus shows the locale's
  \<open>0\<close> followed by \<^verbatim>\<open>IOCs\<close>; a count that is present is kept; every other field is the
  wire's, with \<^verbatim>\<open>last_updated\<close> parsed into a date.
\<close>

theorem fetchFeeds_count_defaults_to_zero:
  assumes "fetch (mkRequest P ''/feeds'' None) = Responded response"
    and "ok response" and "json response = Some feeds"
    and "n < length feeds"
  shows "\<exists>out.
           fetchFeeds P fetch = Inr out
           \<and> length out = length feeds
           \<and> (indicator_count (feeds ! n) \<in> {Undefined, Null, Present 0} \<longrightarrow>
                indicatorCount (out ! n) = 0
                \<and> iocCountText P (out ! n) = toLocaleString P 0 @ '' IOCs'')
           \<and> (\<forall>c. indicator_count (feeds ! n) = Present c \<longrightarrow> indicatorCount (out ! n) = c)
           \<and> feed_id (out ! n) = fw_id (feeds ! n)
           \<and> feed_name (out ! n) = fw_name (feeds ! n)
           \<and> feed_description (out ! n) = fw_description (feeds ! n)
           \<and> feed_url (out ! n) = fw_url (feeds ! n)
           \<and> lastUpdated (out ! n) = Date (dateParse P (last_updated (feeds ! n)))
           \<and> feed_status (out ! n) = fw_status (feeds ! n)
           \<and> reliability (out ! n) = fw_reliability (feeds ! n)"
  using assms by (auto simp: fetchFeeds_def apiFetch_def iocCountText_def)


theorem fetchFeeds_count_defaults_to_zero_witness:
  "map_sum id (map indicatorCount)
     (fetchFeeds samplePlatform
        (respond True 200 ''OK'' (Some [sampleFeedWire Undefined, sampleFeedWire Null,
                                         sampleFeedWire (Present 0), sampleFeedWire (Present 1234)])))
     = Inr [0, 0, 0, 1234]
   \<and> map_sum id (map (iocCountText samplePlatform))
     (fetchFeeds samplePlatform
        (respond True 200 ''OK'' (Some [sampleFeedWire Undefined, sampleFeedWire Null,
                                         sampleFeedWire (Present 0), sampleFeedWire (Present 1234)])))
     = Inr [''0 IOCs'', ''0 IOCs'', ''0 IOCs'', ''1,234 IOCs'']
   \<and> map_sum id (map lastUpdated)
     (fetchFeeds samplePlatform
        (respond True 200 ''OK'' (Some [sampleFeedWire Undefined, sampleFeedWire Null,
                                         sampleFeedWire (Present 0), sampleFeedWire (Present 1234)])))
     = Inr [Date (Some 1706774400000), Date (Some 1706774400000), Date (Some 1706774400000), Date (Some 1706774400000)]"
  using fetchFeeds_count_defaults_to_zero
    [of "respond True 200 ''OK'' (Some [sampleFeedWire Undefined, sampleFeedWire Null,
                                         sampleFeedWire (Present 0), sampleFeedWire (Present 1234)])"
       samplePlatform
       "\<lparr>ok = True, status = 200, statusText = ''OK'',
         json = Some [sampleFeedWire Undefined, sampleFeedWire Null,
                      sampleFeedWire (Present 0), sampleFeedWire (Present 1234)]\<rparr>"
       "[sampleFeedWire Undefined, sampleFeedWire Null, sampleFeedWire (Present 0), sampleFeedWire (Present 1234)]"
       0]
  by (simp add: respond_def fetchFeeds_def apiFetch_def samplePlatform_def sampleFeedWire_def
      iocCountText_def sampleLocale_def showNat_digit showNat_step)


section \<open>The aggregation engine: merging\<close>








lemma keyOf_mergeInto: "keyOf (mergeInto E d i) = keyOf i"
  by (simp add: keyOf_def mergeInto_def rescore_def Let_def)

lemma keyOf_newIndicator: "keyOf (newIndicator E n d) = draftKey d"
  by (simp add: keyOf_def newIndicator_def rescore_def Let_def draftKey_def)



lemma mergeInto_correlations:
  "mergeInto E d (i\<lparr>ind_correlations := c\<rparr>) = (mergeInto E d i)\<lparr>ind_correlations := c\<rparr>"
  by (simp add: mergeInto_def rescore_def Let_def)





lemma ingest_indicators:
  "indicators (ingest E d st) = upsertList (fst (merge E d st)) (indicators st)"
  by (simp add: ingest_def upsert_def split: prod.splits)



lemma correlate_indicators:
  "indicators (correlate E st) = map (setLinks (discover E (indicators st))) (indicators st)"
  by (simp add: correlate_def Let_def)

lemma keyOf_setLinks: "keyOf (setLinks links i) = keyOf i"
  by (simp add: keyOf_def setLinks_def)






lemma keys_upsertList:
  "map keyOf (upsertList x inds)
     = (if keyOf x \<in> set (map keyOf inds) then map keyOf inds else map keyOf inds @ [keyOf x])"
  by (induction inds) auto

lemma distinct_keys_ingest:
  "distinct (map keyOf (indicators st)) \<Longrightarrow> distinct (map keyOf (indicators (ingest E d st)))"
  by (simp add: ingest_indicators keys_upsertList)

lemma keys_correlate: "map keyOf (indicators (correlate E st)) = map keyOf (indicators st)"
  by (simp add: correlate_indicators keyOf_setLinks cong: map_cong)

lemma reachable_distinct_keys: "reachable E st \<Longrightarrow> distinct (map keyOf (indicators st))"
  by (induction rule: reachable.induct)
     (simp_all add: emptyStore_def distinct_keys_ingest keys_correlate)


lemma symmetricLinks_view:
  "symmetricLinks inds = (\<forall>a \<in> set (map view inds). \<forall>b \<in> set (map view inds).
      (fst b \<in> snd a) = (fst a \<in> snd b))"
  by (simp add: symmetricLinks_def view_def)

lemma idsBelow_view:
  "idsBelow n inds = (\<forall>v \<in> set (map view inds). fst v < n \<and> (\<forall>j \<in> snd v. j < n))"
  by (simp add: idsBelow_def view_def)

lemma linksOf_sym: "(m \<in> linksOf links n) = (n \<in> linksOf links m)"
  by (force simp: linksOf_def)

lemma symmetricLinks_correlate: "symmetricLinks (indicators (correlate E st))"
  by (simp add: symmetricLinks_def correlate_indicators setLinks_def linksOf_sym)

lemma discover_ids:
  "p \<in> set (discover E inds) \<Longrightarrow> fst p \<in> ind_id ` set inds \<and> snd p \<in> ind_id ` set inds"
  by (auto simp: discover_def)

lemma linksOf_discover: "j \<in> linksOf (discover E inds) n \<Longrightarrow> j \<in> ind_id ` set inds"
  by (auto simp: linksOf_def dest: discover_ids)

lemma idsBelow_correlate:
  "idsBelow n (indicators st) \<Longrightarrow> idsBelow n (indicators (correlate E st))"
  by (auto simp: idsBelow_def correlate_indicators setLinks_def dest!: linksOf_discover)

lemma upsertList_absent:
  "find (\<lambda>i. keyOf i = keyOf x) inds = None \<Longrightarrow> upsertList x inds = inds @ [x]"
  by (induction inds) (auto split: if_splits)

lemma view_upsertList_present:
  "find (\<lambda>i. keyOf i = keyOf x) inds = Some e \<Longrightarrow> view x = view e
     \<Longrightarrow> map view (upsertList x inds) = map view inds"
  by (induction inds) (auto split: if_splits)

lemma view_mergeInto: "view (mergeInto E d i) = view i"
  by (simp add: view_def mergeInto_def rescore_def Let_def)

lemma view_newIndicator: "view (newIndicator E n d) = (n, {})"
  by (simp add: view_def newIndicator_def rescore_def Let_def)

lemma ingest_views:
  "(map view (indicators (ingest E d st)) = map view (indicators st) \<and> nextId (ingest E d st) = nextId st)
   \<or> (map view (indicators (ingest E d st)) = map view (indicators st) @ [(nextId st, {})]
       \<and> nextId (ingest E d st) = Suc (nextId st))"
proof (cases "find (\<lambda>i. keyOf i = draftKey d) (indicators st)")
  case None
  then have "merge E d st = (newIndicator E (nextId st) d, True)"
    by (simp add: merge_def)
  moreover have "upsertList (newIndicator E (nextId st) d) (indicators st)
                 = indicators st @ [newIndicator E (nextId st) d]"
    using None by (intro upsertList_absent) (simp add: keyOf_newIndicator)
  ultimately show ?thesis
    by (simp add: ingest_def upsert_def view_newIndicator)
next
  case (Some e)
  then have "merge E d st = (mergeInto E d e, False)"
    by (simp add: merge_def)
  moreover have "keyOf e = draftKey d"
    using Some by (auto simp: find_Some_iff)
  then have "map view (upsertList (mergeInto E d e) (indicators st)) = map view (indicators st)"
    using Some by (intro view_upsertList_present [where e = e]) (simp_all add: keyOf_mergeInto view_mergeInto)
  ultimately show ?thesis
    by (simp add: ingest_def upsert_def)
qed

lemma invariants_ingest:
  assumes "idsBelow (nextId st) (indicators st)" and "symmetricLinks (indicators st)"
  shows "idsBelow (nextId (ingest E d st)) (indicators (ingest E d st))
         \<and> symmetricLinks (indicators (ingest E d st))"
  using assms ingest_views [of E d st]
  unfolding idsBelow_view symmetricLinks_view
  by (elim disjE) (auto simp: less_Suc_eq)

lemma nextId_correlate: "nextId (correlate E st) = nextId st"
  by (simp add: correlate_def Let_def)

lemma reachable_invariants:
  "reachable E st \<Longrightarrow> idsBelow (nextId st) (indicators st) \<and> symmetricLinks (indicators st)"
proof (induction rule: reachable.induct)
  case reach_empty
  then show ?case by (simp add: emptyStore_def idsBelow_def symmetricLinks_def)
next
  case (reach_ingest st d)
  then show ?case by (simp add: invariants_ingest)
next
  case (reach_correlate st)
  then show ?case by (simp add: idsBelow_correlate nextId_correlate symmetricLinks_correlate)
qed

































section \<open>The aggregation engine: identity\<close>

text \<open>
  C2. In every state the Store reaches from the empty Store by ingestions and correlation
  passes, the keys \<open>(type, value)\<close> of its indicators are pairwise different.
\<close>

theorem reachable_identity_unique:
  assumes "reachable E st"
  shows "distinct (map keyOf (indicators st))
         \<and> (\<forall>m < length (indicators st). \<forall>n < length (indicators st).
               m \<noteq> n \<longrightarrow> keyOf (indicators st ! m) \<noteq> keyOf (indicators st ! n))"
proof -
  have d: "distinct (map keyOf (indicators st))"
    using assms by (rule reachable_distinct_keys)
  moreover have "keyOf (indicators st ! m) \<noteq> keyOf (indicators st ! n)"
    if "m < length (indicators st)" "n < length (indicators st)" "m \<noteq> n" for m n
    using d that nth_eq_iff_index_eq [of "map keyOf (indicators st)" m n] by simp
  ultimately show ?thesis by blast
qed

lemma sampleStore_value:
  "sampleStore
     = \<lparr>indicators =
          [\<lparr>ind_id = 0, ind_value = ''evil.example'', ind_type = T_domain, ind_level = L_critical,
            ind_score = 85, ind_sources = [''OTX-mock'', ''Mock-B''], ind_firstSeen = 10,
            ind_lastSeen = 20, ind_createdAt = 10, ind_tags = [''scanner'', ''c2''],
            ind_description = None, ind_correlations = {1}\<rparr>,
           \<lparr>ind_id = 1, ind_value = ''http://evil.example/x'', ind_type = T_url, ind_level = L_low,
            ind_score = 30, ind_sources = [''Mock-B''], ind_firstSeen = 30, ind_lastSeen = 30,
            ind_createdAt = 30, ind_tags = [], ind_description = None, ind_correlations = {0}\<rparr>],
        nextId = 2\<rparr>"
  by (simp add: sampleStore_def correlate_def discover_def candidate_def hostname_def linksOf_def
      setLinks_def sharedTags_def
      ingest_def merge_def emptyStore_def newIndicator_def mergeInto_def rescore_def sampleEngine_def
      sampleDraft_def upsert_def draftKey_def keyOf_def levelFor_def defaultThresholds_def
      addSource_def tagUnion_def addTag_def nonEmpty_def lower_def lowerChar_def Let_def)
     auto

lemma sampleStore_reachable: "reachable sampleEngine sampleStore"
  unfolding sampleStore_def by (intro reach_correlate reach_ingest reach_empty)

theorem reachable_identity_unique_witness:
  "reachable sampleEngine sampleStore
   \<and> map keyOf (indicators sampleStore) = [(T_domain, ''evil.example''), (T_url, ''http://evil.example/x'')]
   \<and> distinct (map keyOf (indicators sampleStore))
   \<and> keyOf (indicators sampleStore ! 0) \<noteq> keyOf (indicators sampleStore ! 1)"
proof -
  have r: "reachable sampleEngine sampleStore"
    by (rule sampleStore_reachable)
  have l: "length (indicators sampleStore) = 2"
    by (simp add: sampleStore_value)
  show ?thesis
    using r reachable_identity_unique [OF r] l
    by (simp add: sampleStore_value keyOf_def)
qed


section \<open>The aggregation engine: correlation\<close>

text \<open>
  C3. After a correlation pass over any Store, and in every state the Store reaches (so
  also after the ingestions that follow a pass), the id of \<open>B\<close> is among the
  correlations of \<open>A\<close> exactly when the id of \<open>A\<close> is among those of \<open>B\<close>.
\<close>

theorem reachable_correlations_symmetric:
  "symmetricLinks (indicators (correlate E st))
   \<and> (reachable E st \<longrightarrow>
        (\<forall>a \<in> set (indicators st). \<forall>b \<in> set (indicators st).
           (ind_id b \<in> ind_correlations a) = (ind_id a \<in> ind_correlations b)))"
  using reachable_invariants [of E st] symmetricLinks_correlate [of E st]
  by (simp add: symmetricLinks_def)

theorem reachable_correlations_symmetric_witness:
  "reachable sampleEngine sampleStore
   \<and> map ind_id (indicators sampleStore) = [0, 1]
   \<and> map ind_correlations (indicators sampleStore) = [{1}, {0}]
   \<and> (ind_id (indicators sampleStore ! 1) \<in> ind_correlations (indicators sampleStore ! 0))
       = (ind_id (indicators sampleStore ! 0) \<in> ind_correlations (indicators sampleStore ! 1))
   \<and> symmetricLinks (indicators (correlate sampleEngine sampleStore))"
proof -
  have r: "reachable sampleEngine sampleStore"
    by (rule sampleStore_reachable)
  have m: "indicators sampleStore ! 0 \<in> set (indicators sampleStore)"
      "indicators sampleStore ! 1 \<in> set (indicators sampleStore)"
    by (simp_all add: sampleStore_value)
  from reachable_correlations_symmetric [of sampleEngine sampleStore] r m
  have "(ind_id (indicators sampleStore ! 1) \<in> ind_correlations (indicators sampleStore ! 0))
       = (ind_id (indicators sampleStore ! 0) \<in> ind_correlations (indicators sampleStore ! 1))"
    and "symmetricLinks (indicators (correlate sampleEngine sampleStore))"
    by blast+
  then show ?thesis
    using r by (simp add: sampleStore_value)
qed


section \<open>Statistics and the chart's percentages\<close>

lemma bits_0: "bits 0 = 0"
  by (simp add: bits.simps)

lemma bits_pos: "0 < n \<Longrightarrow> bits n = Suc (bits (n div 2))"
  by (subst bits.simps) simp

lemma bits_bounds: "0 < n \<Longrightarrow> 2 ^ (bits n - 1) \<le> n \<and> n < 2 ^ bits n"
proof (induction n rule: bits.induct)
  case (1 n)
  show ?case
  proof (cases "n div 2 = 0")
    case True
    with "1.prems" have "n = 1" by (simp add: div_eq_0_iff) 
    then show ?thesis by (simp add: bits_pos bits_0)
  next
    case False
    let ?b = "bits (n div 2)"
    from False have pos: "0 < n div 2" by simp
    with "1.IH" "1.prems" have ih: "2 ^ (?b - 1) \<le> n div 2" "n div 2 < 2 ^ ?b" by simp_all
    from pos have b: "?b = Suc (?b - 1)" by (simp add: bits_pos)
    have "2 ^ ?b = 2 * 2 ^ (?b - 1)" by (subst b) simp
    also have "\<dots> \<le> 2 * (n div 2)" using ih(1) by simp
    also have "\<dots> \<le> n" by simp
    finally have lo: "2 ^ ?b \<le> n" .
    have "n < 2 * (n div 2) + 2" by presburger
    also have "\<dots> \<le> 2 * 2 ^ ?b" using ih(2) by simp
    finally have hi: "n < 2 ^ Suc ?b" by simp
    from lo hi show ?thesis using "1.prems" by (simp add: bits_pos)
  qed
qed

lemma scaled_quotient:
  fixes p q :: nat
  assumes "0 < q"
  shows "(of_nat (p * 2 ^ nat k) :: rat) / of_nat (q * 2 ^ nat (- k))
           = of_nat p / of_nat q * 2 powi k"
proof (cases "0 \<le> k")
  case True
  then show ?thesis by (simp add: power_int_def)
next
  case False
  then show ?thesis by (simp add: power_int_def field_simps)
qed

lemma exponent_lower:
  fixes p q :: nat
  assumes p: "0 < p" and q: "0 < q"
  defines "e0 \<equiv> int (bits p) - int (bits q)"
  defines "e \<equiv> (if q * 2 ^ nat e0 \<le> p * 2 ^ nat (- e0) then e0 else e0 - 1)"
  shows "(2::rat) powi e \<le> of_nat p / of_nat q"
proof (cases "q * 2 ^ nat e0 \<le> p * 2 ^ nat (- e0)")
  case True
  then have "(of_nat (q * 2 ^ nat e0) :: rat) \<le> of_nat (p * 2 ^ nat (- e0))"
    by (simp only: of_nat_le_iff)
  then have "(of_nat q :: rat) * 2 powi e0 \<le> of_nat p"
    by (cases "0 \<le> e0") (simp_all add: power_int_def field_simps)
  then show ?thesis using q True by (simp add: e_def field_simps)
next
  case False
  have bp: "2 ^ (bits p - 1) \<le> p" and bq: "q < 2 ^ bits q"
    using bits_bounds [OF p] bits_bounds [OF q] by simp_all
  obtain b where b: "bits p = Suc b" using p by (simp add: bits_pos)
  have "(of_nat q :: rat) * 2 powi (e0 - 1) = of_nat q * 2 ^ (bits p - 1) / 2 ^ bits q"
    by (simp add: e0_def b power_int_diff power_int_add)
  also have "\<dots> \<le> of_nat q * of_nat p / 2 ^ bits q"
  proof -
    have "(2::rat) ^ (bits p - 1) \<le> of_nat p"
      using bp by (metis of_nat_le_iff of_nat_numeral of_nat_power)
    then show ?thesis by (simp add: divide_right_mono mult_left_mono)
  qed
  also have "\<dots> \<le> of_nat p"
  proof -
    have "(of_nat q :: rat) \<le> 2 ^ bits q"
      using bq by (metis less_imp_le of_nat_le_iff of_nat_numeral of_nat_power)
    then have "(of_nat q :: rat) * of_nat p \<le> 2 ^ bits q * of_nat p"
      by (simp add: mult_right_mono)
    then show ?thesis by (simp add: field_simps)
  qed
  finally show ?thesis using q False by (simp add: e_def field_simps)
qed

lemma nearest_within_half:
  fixes num den :: nat
  assumes "0 < den"
  defines "n \<equiv> num div den" and "r \<equiv> num mod den"
  defines "m \<equiv> (if 2 * r < den then n else if den < 2 * r then n + 1 else if even n then n else n + 1)"
  shows "\<bar>(of_nat m :: rat) - of_nat num / of_nat den\<bar> \<le> 1 / 2"
proof -
  have num: "(of_nat num :: rat) = of_nat n * of_nat den + of_nat r"
    unfolding n_def r_def by (metis of_nat_add of_nat_mult div_mult_mod_eq)
  have rlt: "r < den" unfolding r_def using assms(1) by simp
  have d: "(0::rat) < of_nat den" using assms(1) by simp
  have q: "(of_nat num :: rat) / of_nat den = of_nat n + of_nat r / of_nat den"
    using d by (simp add: num field_simps)
  consider "2 * r < den" | "den < 2 * r" | "2 * r = den" by linarith
  then show ?thesis
  proof cases
    case 1
    then have "(2::rat) * of_nat r < of_nat den" by (metis of_nat_less_iff of_nat_mult of_nat_numeral)
    then have "(of_nat r :: rat) / of_nat den \<le> 1 / 2" using d by (simp add: field_simps)
    moreover have "(0::rat) \<le> of_nat r / of_nat den" by simp
    ultimately show ?thesis using 1 by (simp add: m_def q)
  next
    case 2
    then have "(of_nat den :: rat) < 2 * of_nat r" by (metis of_nat_less_iff of_nat_mult of_nat_numeral)
    then have "(1::rat) / 2 \<le> of_nat r / of_nat den" using d by (simp add: field_simps)
    moreover have "(of_nat r :: rat) / of_nat den \<le> 1" using rlt d by (simp add: field_simps)
    ultimately show ?thesis using 2 by (simp add: m_def q abs_if)
  next
    case 3
    then have "(of_nat den :: rat) = 2 * of_nat r" by (metis of_nat_mult of_nat_numeral)
    then have "(of_nat r :: rat) / of_nat den = 1 / 2" using d by (simp add: field_simps)
    then show ?thesis using 3 by (simp add: m_def q)
  qed
qed


lemma roundQuot_error:
  fixes p q :: nat
  assumes p: "0 < p" and q: "0 < q"
  shows "\<exists>m e. roundQuot p q = Finite m e
           \<and> \<bar>(of_nat m :: rat) * 2 powi e - of_nat p / of_nat q\<bar> \<le> of_nat p / of_nat q / 2 ^ 53"
proof -
  define e0 where "e0 = int (bits p) - int (bits q)"
  define e where "e = (if q * 2 ^ nat e0 \<le> p * 2 ^ nat (- e0) then e0 else e0 - 1)"
  define k where "k = 52 - e"
  define num where "num = p * 2 ^ nat k"
  define den where "den = q * 2 ^ nat (- k)"
  define m where "m = (if 2 * (num mod den) < den then num div den
                       else if den < 2 * (num mod den) then num div den + 1
                       else if even (num div den) then num div den else num div den + 1)"
  let ?x = "(of_nat p :: rat) / of_nat q"
  have r: "roundQuot p q = Finite m (- k)"
    by (simp add: roundQuot_def Let_def e0_def e_def k_def num_def den_def m_def)
  have den: "0 < den" using q by (simp add: den_def)
  have half: "\<bar>(of_nat m :: rat) - of_nat num / of_nat den\<bar> \<le> 1 / 2"
    unfolding m_def by (rule nearest_within_half [OF den])
  have scaled: "(of_nat num :: rat) / of_nat den = ?x * 2 powi k"
    unfolding num_def den_def by (rule scaled_quotient [OF q])
  have low: "(2::rat) powi e \<le> ?x"
    unfolding e_def e0_def by (rule exponent_lower [OF p q])
  have pk: "(0::rat) < 2 powi (- k)" by simp
  have "\<bar>of_nat m * 2 powi (- k) - ?x\<bar> = \<bar>(of_nat m - ?x * 2 powi k) * 2 powi (- k)\<bar>"
    by (simp add: algebra_simps power_int_minus)
  also have "\<dots> = \<bar>of_nat m - ?x * 2 powi k\<bar> * 2 powi (- k)"
    using pk by (simp add: abs_mult)
  also have "\<dots> \<le> 1 / 2 * 2 powi (- k)"
    using half pk by (simp add: scaled mult_right_mono)
  also have "\<dots> = 2 powi e / 2 ^ 53"
    by (simp add: k_def power_int_diff power_int_minus field_simps)
  also have "\<dots> \<le> ?x / 2 ^ 53"
    using low by (simp add: divide_right_mono)
  finally show ?thesis using r by blast
qed

lemma pct_error:
  assumes t: "0 < t" "t < 2 ^ 53" and c: "c \<le> t"
  shows "\<exists>v. valueOf (pct c t) = Some v
           \<and> \<bar>v - 100 * of_nat c / of_nat t\<bar> \<le> 100 * of_nat c / of_nat t * (2 / 2 ^ 53 + 1 / 2 ^ 106)"
proof (cases "c = 0")
  case True
  then show ?thesis using t by (simp add: pct_def fromNat_def)
next
  case False
  let ?x = "(of_nat c :: rat) / of_nat t"
  let ?u = "(1::rat) / 2 ^ 53"
  have c53: "c < 2 ^ 53" using c t by simp
  have x: "0 < ?x" using False t by simp
  have d: "js_div (fromNat c) (fromNat t) = roundQuot c t"
    using False t c53 by (simp add: fromNat_def)
  from roundQuot_error [of c t] False t obtain m e where
    r1: "roundQuot c t = Finite m e" and e1: "\<bar>of_nat m * 2 powi e - ?x\<bar> \<le> ?x / 2 ^ 53"
    by auto
  let ?v1 = "(of_nat m :: rat) * 2 powi e"
  have v1lo: "?x * (1 - ?u) \<le> ?v1" and v1hi: "?v1 \<le> ?x * (1 + ?u)"
    using e1 by (simp_all add: abs_le_iff algebra_simps)
  have "0 < ?x * (1 - ?u)" using x by simp
  with v1lo have v1pos: "0 < ?v1" by linarith
  then have m: "0 < m" by (cases "m = 0") simp_all
  have prod: "(of_nat (m * 100 * 2 ^ nat e) :: rat) / of_nat (2 ^ nat (- e)) = 100 * ?v1"
    using scaled_quotient [of 1 "m * 100" e] by (simp add: mult_ac)
  have "pct c t = js_mul (Finite m e) (fromNat 100)"
    by (simp only: pct_def d r1)
  then have tm: "pct c t = roundQuot (m * 100 * 2 ^ nat e) (2 ^ nat (- e))"
    using m by (simp add: fromNat_def)
  from roundQuot_error [of "m * 100 * 2 ^ nat e" "2 ^ nat (- e)"] m obtain m' e' where
    r2: "roundQuot (m * 100 * 2 ^ nat e) (2 ^ nat (- e)) = Finite m' e'"
    and e2: "\<bar>of_nat m' * 2 powi e' - 100 * ?v1\<bar> \<le> 100 * ?v1 / 2 ^ 53"
    unfolding prod by auto
  let ?v2 = "(of_nat m' :: rat) * 2 powi e'"
  have "\<bar>?v2 - 100 * ?x\<bar> \<le> \<bar>?v2 - 100 * ?v1\<bar> + 100 * \<bar>?v1 - ?x\<bar>"
    by (simp add: abs_if split: if_splits)
  also have "\<dots> \<le> 100 * ?v1 * ?u + 100 * (?x * ?u)"
    using e1 e2 by simp
  also have "\<dots> \<le> 100 * (?x * (1 + ?u)) * ?u + 100 * (?x * ?u)"
    using v1hi by (simp add: mult_right_mono)
  also have "\<dots> = 100 * ?x * (2 / 2 ^ 53 + 1 / 2 ^ 106)"
    by (simp add: algebra_simps)
  finally show ?thesis by (simp add: tm r2)
qed


lemma levels_pct:
  "map percentage (levels s)
     = [pct (criticalCount s) (totalIndicators s), pct (highCount s) (totalIndicators s),
        pct (mediumCount s) (totalIndicators s), pct (lowCount s) (totalIndicators s),
        pct (infoCount s) (totalIndicators s)]"
  by (simp add: levels_def pct_def Let_def)

lemma percentageSum_pct:
  "percentageSum s
     = map_option sum_list (those (map valueOf
         [pct (criticalCount s) (totalIndicators s), pct (highCount s) (totalIndicators s),
          pct (mediumCount s) (totalIndicators s), pct (lowCount s) (totalIndicators s),
          pct (infoCount s) (totalIndicators s)]))"
  unfolding percentageSum_def levels_pct [symmetric] by (simp add: comp_def)

lemma percentageSum_error:
  assumes sum: "criticalCount s + highCount s + mediumCount s + lowCount s + infoCount s = totalIndicators s"
    and t: "0 < totalIndicators s" "totalIndicators s < 2 ^ 53"
  shows "\<exists>v. percentageSum s = Some v \<and> \<bar>v - 100\<bar> \<le> 100 * (2 / 2 ^ 53 + 1 / 2 ^ 106)"
proof -
  let ?t = "totalIndicators s"
  let ?B = "(2::rat) / 2 ^ 53 + 1 / 2 ^ 106"
  let ?x = "\<lambda>c. 100 * (of_nat c :: rat) / of_nat ?t"
  have le: "criticalCount s \<le> ?t" "highCount s \<le> ?t" "mediumCount s \<le> ?t" "lowCount s \<le> ?t"
    "infoCount s \<le> ?t" using sum by linarith+
  obtain v1 where v1: "valueOf (pct (criticalCount s) ?t) = Some v1" "\<bar>v1 - ?x (criticalCount s)\<bar> \<le> ?x (criticalCount s) * ?B"
    using pct_error [OF t le(1)] by blast
  obtain v2 where v2: "valueOf (pct (highCount s) ?t) = Some v2" "\<bar>v2 - ?x (highCount s)\<bar> \<le> ?x (highCount s) * ?B"
    using pct_error [OF t le(2)] by blast
  obtain v3 where v3: "valueOf (pct (mediumCount s) ?t) = Some v3" "\<bar>v3 - ?x (mediumCount s)\<bar> \<le> ?x (mediumCount s) * ?B"
    using pct_error [OF t le(3)] by blast
  obtain v4 where v4: "valueOf (pct (lowCount s) ?t) = Some v4" "\<bar>v4 - ?x (lowCount s)\<bar> \<le> ?x (lowCount s) * ?B"
    using pct_error [OF t le(4)] by blast
  obtain v5 where v5: "valueOf (pct (infoCount s) ?t) = Some v5" "\<bar>v5 - ?x (infoCount s)\<bar> \<le> ?x (infoCount s) * ?B"
    using pct_error [OF t le(5)] by blast
  have ps: "percentageSum s = Some (v1 + v2 + v3 + v4 + v5)"
    by (simp add: percentageSum_pct v1(1) v2(1) v3(1) v4(1) v5(1))
  have "(of_nat (criticalCount s) :: rat) + of_nat (highCount s) + of_nat (mediumCount s)
          + of_nat (lowCount s) + of_nat (infoCount s) = of_nat ?t"
    by (subst sum [symmetric]) simp
  then have total: "?x (criticalCount s) + ?x (highCount s) + ?x (mediumCount s) + ?x (lowCount s)
                      + ?x (infoCount s) = 100"
    using t(1) by (simp add: field_simps)
  have "\<bar>(v1 + v2 + v3 + v4 + v5) - 100\<bar>
          = \<bar>(v1 - ?x (criticalCount s)) + (v2 - ?x (highCount s)) + (v3 - ?x (mediumCount s))
              + (v4 - ?x (lowCount s)) + (v5 - ?x (infoCount s))\<bar>"
    by (subst total [symmetric]) (simp add: algebra_simps)
  also have "\<dots> \<le> \<bar>v1 - ?x (criticalCount s)\<bar> + \<bar>v2 - ?x (highCount s)\<bar> + \<bar>v3 - ?x (mediumCount s)\<bar>
              + \<bar>v4 - ?x (lowCount s)\<bar> + \<bar>v5 - ?x (infoCount s)\<bar>"
    by linarith
  also have "\<dots> \<le> ?x (criticalCount s) * ?B + ?x (highCount s) * ?B + ?x (mediumCount s) * ?B
              + ?x (lowCount s) * ?B + ?x (infoCount s) * ?B"
    using v1(2) v2(2) v3(2) v4(2) v5(2) by linarith
  also have "\<dots> = (?x (criticalCount s) + ?x (highCount s) + ?x (mediumCount s)
              + ?x (lowCount s) + ?x (infoCount s)) * ?B"
    by (simp only: distrib_right)
  also have "\<dots> = 100 * ?B"
    by (simp only: total)
  finally show ?thesis using ps by blast
qed

lemma countLevel_total:
  "countLevel L_critical inds + countLevel L_high inds + countLevel L_medium inds
     + countLevel L_low inds + countLevel L_info inds = length inds"
proof (induction inds)
  case Nil
  then show ?case by (simp add: countLevel_def)
next
  case (Cons i inds)
  then show ?case by (cases "ind_level i") (simp_all add: countLevel_def)
qed

lemma pct_1_3: "pct (Suc 0) 3 = Finite 4691249611844266 (- 47)"
  by (simp add: pct_def fromNat_def roundQuot_def Let_def bits_0 bits_pos)

lemma pct_0_3: "pct 0 3 = Finite 0 0"
  by (simp add: pct_def fromNat_def)

lemma sum_1_1_1: "percentageSum sampleThirds = Some (100 - 1 / 2 ^ 46)"
  by (simp add: percentageSum_pct sampleThirds_def pct_1_3 pct_0_3 power_int_minus)

text \<open>
  C4, as the code has it. The per-level counts of the Statistics Aggregator add up to
  \<^verbatim>\<open>total_indicators\<close>, and \<open>fetchStatistics\<close> hands them to the dashboard unchanged. For
  statistics whose counts add up to a positive total below \<open>2 ^ 53\<close>, the five
  percentages of ThreatLevelChart are finite and their sum is 100 up to the rounding of
  the divisions and multiplications: it differs from 100 by less than \<open>2 ^ -45\<close>.
\<close>

theorem statistics_counts_and_percentages:
  "critical_count (statistics feeds now st) + high_count (statistics feeds now st)
     + medium_count (statistics feeds now st) + low_count (statistics feeds now st)
     + info_count (statistics feeds now st) = total_indicators (statistics feeds now st)
   \<and> (\<forall>response. fetch (mkRequest P ''/statistics'' None) = Responded response \<and> ok response
          \<and> json response = Some (statistics feeds now st) \<longrightarrow>
        (\<exists>stats. fetchStatistics P fetch = Inr stats
           \<and> criticalCount stats + highCount stats + mediumCount stats + lowCount stats
                + infoCount stats = totalIndicators stats))
   \<and> (criticalCount s + highCount s + mediumCount s + lowCount s + infoCount s = totalIndicators s
        \<and> 0 < totalIndicators s \<and> totalIndicators s < 2 ^ 53 \<longrightarrow>
        (\<exists>v. percentageSum s = Some v \<and> \<bar>v - 100\<bar> < 1 / 2 ^ 45))"
proof (intro conjI allI impI)
  show total: "critical_count (statistics feeds now st) + high_count (statistics feeds now st)
     + medium_count (statistics feeds now st) + low_count (statistics feeds now st)
     + info_count (statistics feeds now st) = total_indicators (statistics feeds now st)"
    by (simp add: statistics_def countLevel_total)
  show "\<exists>stats. fetchStatistics P fetch = Inr stats
           \<and> criticalCount stats + highCount stats + mediumCount stats + lowCount stats
                + infoCount stats = totalIndicators stats"
    if "fetch (mkRequest P ''/statistics'' None) = Responded response \<and> ok response
          \<and> json response = Some (statistics feeds now st)" for response
    using that total by (simp add: fetchStatistics_def apiFetch_def)
  show "\<exists>v. percentageSum s = Some v \<and> \<bar>v - 100\<bar> < 1 / 2 ^ 45"
    if "criticalCount s + highCount s + mediumCount s + lowCount s + infoCount s = totalIndicators s
        \<and> 0 < totalIndicators s \<and> totalIndicators s < 2 ^ 53"
  proof -
    from that percentageSum_error [of s] obtain v where
      v: "percentageSum s = Some v" "\<bar>v - 100\<bar> \<le> 100 * (2 / 2 ^ 53 + 1 / 2 ^ 106)"
      by blast
    have "(100::rat) * (2 / 2 ^ 53 + 1 / 2 ^ 106) < 1 / 2 ^ 45"
      by simp
    with v show ?thesis by force
  qed
qed

theorem statistics_counts_and_percentages_witness:
  "criticalCount sampleThirds + highCount sampleThirds + mediumCount sampleThirds
     + lowCount sampleThirds + infoCount sampleThirds = totalIndicators sampleThirds
   \<and> 0 < totalIndicators sampleThirds \<and> totalIndicators sampleThirds < 2 ^ 53
   \<and> percentageSum sampleThirds = Some (100 - 1 / 2 ^ 46)
   \<and> \<bar>(100 - 1 / 2 ^ 46) - (100::rat)\<bar> < 1 / 2 ^ 45
   \<and> (\<exists>stats. fetchStatistics samplePlatform
                  (respond True 200 ''OK'' (Some (statistics [S_active] 100 sampleStore))) = Inr stats
          \<and> criticalCount stats + highCount stats + mediumCount stats + lowCount stats
               + infoCount stats = totalIndicators stats)"
proof -
  have h: "criticalCount sampleThirds + highCount sampleThirds + mediumCount sampleThirds
     + lowCount sampleThirds + infoCount sampleThirds = totalIndicators sampleThirds
     \<and> 0 < totalIndicators sampleThirds \<and> totalIndicators sampleThirds < 2 ^ 53"
    by (simp add: sampleThirds_def)
  have r: "respond True 200 ''OK'' (Some (statistics [S_active] 100 sampleStore))
             (mkRequest samplePlatform ''/statistics'' None)
           = Responded \<lparr>ok = True, status = 200, statusText = ''OK'',
                        json = Some (statistics [S_active] 100 sampleStore)\<rparr>"
    by (simp add: respond_def)
  note t = statistics_counts_and_percentages
    [of "[S_active]" 100 sampleStore
        "respond True 200 ''OK'' (Some (statistics [S_active] 100 sampleStore))" samplePlatform sampleThirds]
  from t h obtain v where v: "percentageSum sampleThirds = Some v" "\<bar>v - 100\<bar> < 1 / 2 ^ 45"
    by blast
  from v(1) have "v = 100 - 1 / 2 ^ 46"
    by (simp add: sum_1_1_1)
  with v(2) have b: "\<bar>(100 - 1 / 2 ^ 46) - (100::rat)\<bar> < 1 / 2 ^ 45"
    by simp
  from t r have "\<exists>stats. fetchStatistics samplePlatform
                  (respond True 200 ''OK'' (Some (statistics [S_active] 100 sampleStore))) = Inr stats
          \<and> criticalCount stats + highCount stats + mediumCount stats + lowCount stats
               + infoCount stats = totalIndicators stats"
    by force
  with h b show ?thesis
    by (simp add: sum_1_1_1)
qed

text \<open>
  C4, as the claim states it, fails: with one indicator in each of three levels and a total
  of 3, each of the three percentages is the double 33.33333333333333 and the five sum to
  \<open>100 - 2 ^ -46\<close>, not to 100.
\<close>

theorem thirds_do_not_sum_to_100:
  "criticalCount sampleThirds + highCount sampleThirds + mediumCount sampleThirds
     + lowCount sampleThirds + infoCount sampleThirds = totalIndicators sampleThirds
   \<and> 0 < totalIndicators sampleThirds
   \<and> map (\<lambda>l. valueOf (percentage l)) (levels sampleThirds)
       = [Some (2345624805922133 / 70368744177664), Some (2345624805922133 / 70368744177664),
          Some (2345624805922133 / 70368744177664), Some 0, Some 0]
   \<and> percentageSum sampleThirds = Some (100 - 1 / 2 ^ 46)
   \<and> percentageSum sampleThirds \<noteq> Some 100"
proof -
  have p: "map percentage (levels sampleThirds)
       = [Finite 4691249611844266 (- 47), Finite 4691249611844266 (- 47),
          Finite 4691249611844266 (- 47), Finite 0 0, Finite 0 0]"
    using levels_pct [of sampleThirds] by (simp add: sampleThirds_def pct_1_3 pct_0_3)
  have "map (\<lambda>l. valueOf (percentage l)) (levels sampleThirds)
          = map valueOf (map percentage (levels sampleThirds))"
    by (simp add: comp_def)
  also have "\<dots> = [Some (2345624805922133 / 70368744177664), Some (2345624805922133 / 70368744177664),
          Some (2345624805922133 / 70368744177664), Some 0, Some 0]"
    unfolding p by (simp add: power_int_minus)
  finally show ?thesis
    by (simp add: sum_1_1_1) (simp add: sampleThirds_def)
qed

end
